theory Spec2Isabelle
  imports Main "HOL-Library.Word"
begin

section \<open>Errors\<close>

text \<open>
  Every exception the modelled code can raise is a value of this type; a fallible
  function returns \<open>error + 'a\<close> with \<open>Inl\<close> the raised exception.
\<close>

datatype error =
    InvalidInputError
  | InferenceError
  | ModelLoadError
  | ConfigError
  | KeyError string

section \<open>The trainer: \<open>modules/model_trainer.py\<close>\<close>

subsection \<open>\<open>BertTrainer.__init__\<close>\<close>

text \<open>
  The constructor stores its arguments and chooses \<open>label2int\<close> by comparing the local
  variable \<open>dataset\<close>, which it has just set to \<open>'snli'\<close>, with \<open>'snli'\<close>. The logger
  argument only receives a message and is left out.
\<close>

record BertTrainer =
  train_path :: string
  dev_path :: string
  test_path :: string
  base_model :: string
  batch_size :: int
  label2int :: "string \<rightharpoonup> int"
  path_to_save :: string

definition BertTrainer_init ::
  "string \<Rightarrow> string \<Rightarrow> string \<Rightarrow> string \<Rightarrow> int \<Rightarrow> string \<Rightarrow> BertTrainer" where
  "BertTrainer_init train_path' dev_path' test_path' base_model' batch_size' path_to_save' =
     (let dataset = ''snli'' in
      \<lparr> train_path = train_path',
        dev_path = dev_path',
        test_path = test_path',
        base_model = base_model',
        batch_size = batch_size',
        label2int =
          (if dataset = ''snli''
           then [''contradiction'' \<mapsto> 0, ''entailment'' \<mapsto> 1, ''neutral'' \<mapsto> 2]
           else [''SUPPORTS'' \<mapsto> 1, ''REFUTES'' \<mapsto> 0]),
        path_to_save = path_to_save' \<rparr>)"

subsection \<open>\<open>BertTrainer.preparing_data_fever\<close>\<close>

text \<open>
  A row is what \<open>_create_examples_fever\<close> yields; the code reads \<open>row[0]\<close> (guid),
  \<open>row[1]\<close> and \<open>row[2]\<close> (the two texts) and \<open>row[3]\<close> (the label).
\<close>

type_synonym row = "string \<times> string \<times> string \<times> string"

text \<open>\<open>InputExample(guid=row[0], texts=[row[1], row[2]], label=label_id)\<close>: the guid, the
  texts and the label, in this order.\<close>

datatype InputExample = InputExample string "string list" int

text \<open>
  One \<open>for row in tqdm(rows)\<close> loop: \<open>self.label2int[row[3]]\<close> raises \<open>KeyError\<close> on a
  label that is not a key, which ends the method; otherwise the sample is appended.
\<close>

fun nli_samples ::
  "(string \<rightharpoonup> int) \<Rightarrow> row list \<Rightarrow> InputExample list \<Rightarrow> error + InputExample list" where
  "nli_samples l2i [] samples = Inr samples"
| "nli_samples l2i ((r0, r1, r2, r3) # rows) samples =
     (case l2i r3 of
        None \<Rightarrow> Inl (KeyError r3)
      | Some label_id \<Rightarrow>
          nli_samples l2i rows
            (samples @ [InputExample r0 [r1, r2] label_id]))"

text \<open>
  \<open>_create_examples_fever\<close> and the nested \<open>read_fever\<close> are not part of the sources at
  hand: \<open>examples path set_type\<close> stands for
  \<open>_create_examples_fever(read_fever(path), set_type)\<close>. The three loops run in the
  order train, dev, test. On success the three sample lists are what the method hands to
  \<open>SentencesDataset\<close> and \<open>DataLoader\<close> (library code, not modelled).
\<close>

definition preparing_data_fever ::
  "(string \<Rightarrow> string \<Rightarrow> row list) \<Rightarrow> BertTrainer \<Rightarrow>
   error + (InputExample list \<times> InputExample list \<times> InputExample list)" where
  "preparing_data_fever examples self =
     (let train_snli = examples (train_path self) ''train_s'';
          dev_snli = examples (dev_path self) ''dev_s'';
          test_snli = examples (test_path self) ''test_s''
      in case nli_samples (label2int self) train_snli [] of
           Inl e \<Rightarrow> Inl e
         | Inr train_nli_samples \<Rightarrow>
             (case nli_samples (label2int self) dev_snli [] of
                Inl e \<Rightarrow> Inl e
              | Inr dev_nli_samples \<Rightarrow>
                  (case nli_samples (label2int self) test_snli [] of
                     Inl e \<Rightarrow> Inl e
                   | Inr test_nli_samples \<Rightarrow>
                       Inr (train_nli_samples, dev_nli_samples, test_nli_samples))))"

subsection \<open>\<open>BertTrainer.train_model\<close>\<close>

text \<open>
  The sentence-embedding library is a collaborator: \<open>fit\<close> stands for
  \<open>self.model.fit(train_objectives=...)\<close>, which updates the weights \<open>'w\<close>, and
  \<open>evaluate\<close> for \<open>self.model.evaluate(evaluator)\<close>, which returns a score \<open>'r\<close> and may
  touch the weights as well. The two evaluators differ in the data loader they were built
  on; both carry the name \<open>'nli_test'\<close> in the source. Console output is not modelled.
\<close>

datatype dataloader = train_dataloader_nli | dev_dataloader_nli | test_dataloader_nli

datatype evaluator = LabelAccuracyEvaluator dataloader string

definition test_evaluator :: evaluator where
  "test_evaluator = LabelAccuracyEvaluator test_dataloader_nli ''nli_test''"

definition dev_evaluator :: evaluator where
  "dev_evaluator = LabelAccuracyEvaluator dev_dataloader_nli ''nli_test''"

text \<open>
  \<open>for i in range(number_of_epochs)\<close> over Python's unbounded integers: the loop variable
  runs from \<open>0\<close> while it is below \<open>number_of_epochs\<close>.
\<close>

function train_loop ::
  "('w \<Rightarrow> 'w) \<Rightarrow> (evaluator \<Rightarrow> 'w \<Rightarrow> 'r \<times> 'w) \<Rightarrow> int \<Rightarrow> int \<Rightarrow>
   'r list \<times> 'r list \<times> 'w \<Rightarrow> 'r list \<times> 'r list \<times> 'w" where
  "train_loop fit evaluate number_of_epochs i (validation_performance, test_performance, w) =
     (if i < number_of_epochs then
        (let w1 = fit w;
             (v, w2) = evaluate dev_evaluator w1;
             (t, w3) = evaluate test_evaluator w2
         in train_loop fit evaluate number_of_epochs (i + 1)
              (validation_performance @ [v], test_performance @ [t], w3))
      else (validation_performance, test_performance, w))"
  by pat_completeness auto
termination
  by (relation "measure (\<lambda>(fit, evaluate, n, i, acc). nat (n - i))") auto

declare train_loop.simps [simp del]

definition train_model ::
  "('w \<Rightarrow> 'w) \<Rightarrow> (evaluator \<Rightarrow> 'w \<Rightarrow> 'r \<times> 'w) \<Rightarrow> int \<Rightarrow> 'w \<Rightarrow> 'r list \<times> 'r list \<times> 'w" where
  "train_model fit evaluate number_of_epochs w =
     train_loop fit evaluate number_of_epochs 0 ([], [], w)"

text \<open>
  What one epoch does to the weights, stated apart from the loop: fit, then the dev
  evaluation, then the test evaluation. The score lists are compared against it.
\<close>

definition epoch :: "('w \<Rightarrow> 'w) \<Rightarrow> (evaluator \<Rightarrow> 'w \<Rightarrow> 'r \<times> 'w) \<Rightarrow> 'w \<Rightarrow> 'w" where
  "epoch fit evaluate w = snd (evaluate test_evaluator (snd (evaluate dev_evaluator (fit w))))"

definition dev_score :: "('w \<Rightarrow> 'w) \<Rightarrow> (evaluator \<Rightarrow> 'w \<Rightarrow> 'r \<times> 'w) \<Rightarrow> 'w \<Rightarrow> 'r" where
  "dev_score fit evaluate w = fst (evaluate dev_evaluator (fit w))"

definition test_score :: "('w \<Rightarrow> 'w) \<Rightarrow> (evaluator \<Rightarrow> 'w \<Rightarrow> 'r \<times> 'w) \<Rightarrow> 'w \<Rightarrow> 'r" where
  "test_score fit evaluate w =
     fst (evaluate test_evaluator (snd (evaluate dev_evaluator (fit w))))"

section \<open>The service: \<open>start.py\<close> and \<open>modules/api.py\<close>\<close>

subsection \<open>Data\<close>

text \<open>
  A float is kept as its IEEE 754 double bit pattern, so that equality is bit identity.
  The configuration file is a JSON object; \<open>json.load\<close> turns it into a dict, here a map
  from keys to JSON values. \<open>dict_get\<close> is \<open>dict.get(key, default)\<close>.
\<close>

type_synonym float64 = "64 word"

datatype json =
    JNull
  | JBool bool
  | JInt int
  | JFloat float64
  | JString string
  | JArray "json list"
  | JObject "(string \<times> json) list"

definition dict_get :: "(string \<rightharpoonup> json) \<Rightarrow> string \<Rightarrow> json \<Rightarrow> json" where
  "dict_get d k dflt = (case d k of None \<Rightarrow> dflt | Some v \<Rightarrow> v)"

text \<open>
  The response model \<open>model_response\<close> of \<open>start.py\<close> (and of \<open>api.py\<close>) declares four
  fields, in this order; \<open>marshal_list_with(response)\<close> keeps exactly these, so the
  verdict that the handler of \<open>/nli_model/\<close> returns is a record of them.
\<close>

record response =
  label :: string
  contradiction_prob :: float64
  entailment_prob :: float64
  neutral_prob :: float64

text \<open>
  Modelled from the spec: the class \<open>WikiFactChecker\<close> of \<open>modules/model_complex.py\<close> is
  not among the sources; only its construction and its two calls in \<open>start.py\<close> are.
  Following sections 2, 4.2 and 4.4 of the specification, the loaded model is a handle
  that offers \<open>model_level_two.predict(text, hypothesis)\<close>, a function of the handle and
  the two strings that returns a verdict or raises. Of \<open>predict_all(claim)\<close> nothing is
  fixed but its use in \<open>start.py\<close>: it returns a list of entries, each a dict, or raises.
\<close>

record WikiFactChecker =
  model_level_two_predict :: "string \<Rightarrow> string \<Rightarrow> error + response"
  predict_all :: "string \<Rightarrow> error + (string \<rightharpoonup> json) list"

text \<open>
  Modelled from the spec: \<open>check_if_none\<close> of \<open>modules/utils/logging_utils.py\<close> (for
  \<open>api.py\<close>, \<open>modules/logging_utils.py\<close>) is not among the sources. Section 4.1: a
  parameter that is absent or empty fails with \<open>InvalidInputError\<close>; no other validation.
  \<open>request.args.get\<close> gives \<open>None\<close> for an absent parameter.
\<close>

definition check_if_none :: "string option \<Rightarrow> error + string" where
  "check_if_none x =
     (case x of
        None \<Rightarrow> Inl InvalidInputError
      | Some s \<Rightarrow> if s = [] then Inl InvalidInputError else Inr s)"

subsection \<open>Effects\<close>

text \<open>
  What the process does besides computing responses is recorded as a list of events, in
  the order of the source: log lines, the construction of the model, the calls into the
  model, and the start of the server. A log line is an f-string: its literal pieces and
  its interpolated values (a string, a time difference in microseconds, the config dict,
  an absolute path), not rendered.
\<close>

record run_args =
  debug :: bool
  port :: int
  host :: string
  threaded :: bool

datatype fragment =
    Lit string
  | Str string
  | Timedelta int
  | Dict "string \<rightharpoonup> json"
  | Absolute string

datatype event =
    Info "fragment list"
  | Load "string \<rightharpoonup> json"
  | Predict string string
  | Predict_all string
  | Run run_args

fun is_Load :: "event \<Rightarrow> bool" where
  "is_Load (Load c) = True"
| "is_Load e = False"

fun is_Run :: "event \<Rightarrow> bool" where
  "is_Run (Run a) = True"
| "is_Run e = False"

fun is_prediction :: "event \<Rightarrow> bool" where
  "is_prediction (Predict t h) = True"
| "is_prediction (Predict_all c) = True"
| "is_prediction e = False"

subsection \<open>Module level of \<open>start.py\<close>\<close>

text \<open>
  \<open>Api(app, version=config.get("api_version", "0.0"), title='WikiCheck API')\<close> and the two
  namespaces with their descriptions.
\<close>

record api =
  version :: json
  title :: string
  nli_model_description :: json
  fact_checking_model_description :: json

definition create_api :: "(string \<rightharpoonup> json) \<Rightarrow> api" where
  "create_api config =
     \<lparr> version = dict_get config ''api_version'' (JString ''0.0''),
       title = ''WikiCheck API'',
       nli_model_description = dict_get config ''model_name'' (JString ''Wikipedia NLI model''),
       fact_checking_model_description = JString ''Fact checking model'' \<rparr>"

text \<open>\<open>app.run(debug=False, port=80, host="0.0.0.0", threaded=True)\<close>.\<close>

definition app_run_args :: run_args where
  "app_run_args = \<lparr> debug = False, port = 80, host = ''0.0.0.0'', threaded = True \<rparr>"

text \<open>The module's global names that the handlers can see.\<close>

record globals =
  config_path :: string
  config :: "string \<rightharpoonup> json"
  complex_model :: WikiFactChecker
  api :: api

subsection \<open>The handlers\<close>

text \<open>
  A handler gets the globals, the two readings of \<open>datetime.datetime.now()\<close> (in
  microseconds) and the query parameters; it returns the response or the exception that
  left it, the events, and the globals as it leaves them. The second clock reading happens
  only after the prediction has returned.
\<close>

definition nli_model_get ::
  "globals \<Rightarrow> int \<Rightarrow> int \<Rightarrow> (string \<rightharpoonup> string) \<Rightarrow> (error + response) \<times> event list \<times> globals" where
  "nli_model_get g start_time end_time args =
     (let text = args ''text'';
          hypothesis = args ''hypothesis''
      in case check_if_none text of
           Inl e \<Rightarrow> (Inl e, [], g)
         | Inr text \<Rightarrow>
             (case check_if_none hypothesis of
                Inl e \<Rightarrow> (Inl e, [], g)
              | Inr hypothesis \<Rightarrow>
                  (let ev = [Info [Lit ''Query with params={text: '', Str text,
                                   Lit '', hypothesis: '', Str hypothesis, Lit ''}''],
                             Predict text hypothesis]
                   in case model_level_two_predict (complex_model g) text hypothesis of
                        Inl e \<Rightarrow> (Inl e, ev, g)
                      | Inr result \<Rightarrow>
                          (let dif_time = end_time - start_time
                           in (Inr result,
                               ev @ [Info [Lit ''[MODEL_LEVEL_TWO] API; ModelOne Get response; difference: '',
                                           Timedelta dif_time],
                                     Info [Lit ''[MODEL_LEVEL_TWO] API; ModelFull sending the response'']],
                               g)))))"

text \<open>
  The models \<open>Record\<close> (\<open>response_full\<close>) and \<open>Result\<close> (\<open>response_model\<close>) of \<open>start.py\<close>:
  a record declares seven fields, in this order, and a result is a list of records under
  \<open>results\<close>. \<open>marshal_with(response_model)\<close> writes, for every entry of the list and in
  the order of the list, the declared fields and nothing else: the entry's value under
  the field's name, or null where the entry has none. (The conversion of a value by the
  field class, \<open>String\<close> or \<open>Float\<close>, is the web framework's and is left out.)
\<close>

definition response_full :: "string list" where
  "response_full =
     [''claim'', ''text'', ''article'', ''label'',
      ''contradiction_prob'', ''entailment_prob'', ''neutral_prob'']"

definition marshal :: "string list \<Rightarrow> (string \<rightharpoonup> json) \<Rightarrow> (string \<times> json) list" where
  "marshal flds data = map (\<lambda>k. (k, case data k of None \<Rightarrow> JNull | Some v \<Rightarrow> v)) flds"

record Result =
  results :: "(string \<times> json) list list"

text \<open>
  The handler of \<open>/fact_checking_model/\<close>. It has no \<open>try\<close>: an exception of
  \<open>predict_all\<close> leaves the handler. Its return value \<open>{'results': result}\<close> is given as
  \<open>marshal_with(response_model)\<close> sends it.
\<close>

definition fact_checking_model_get ::
  "globals \<Rightarrow> int \<Rightarrow> int \<Rightarrow> (string \<rightharpoonup> string) \<Rightarrow> (error + Result) \<times> event list \<times> globals" where
  "fact_checking_model_get g start_time end_time args =
     (let claim = args ''claim''
      in case check_if_none claim of
           Inl e \<Rightarrow> (Inl e, [], g)
         | Inr claim \<Rightarrow>
             (let ev = [Info [Lit ''Query with params={text: '', Str claim, Lit ''}''],
                        Predict_all claim]
              in case predict_all (complex_model g) claim of
                   Inl e \<Rightarrow> (Inl e, ev, g)
                 | Inr result \<Rightarrow>
                     (let dif_time = end_time - start_time
                      in (Inr \<lparr> results = map (marshal response_full) result \<rparr>,
                          ev @ [Info [Lit ''[COMPLEX MODEL] API; ModelFull Get response; difference: '',
                                      Timedelta dif_time],
                                Info [Lit ''[COMPLEX MODEL] API; ModelFull sending the response'']],
                          g))))"

text \<open>
  The handler of \<open>modules/api.py\<close>: its global \<open>model\<close> is a \<open>SentenceBertModel\<close> (not
  among the sources), of which it calls \<open>predict(text, hypothesis)\<close>; the handler holds no
  other global, so the model is its first argument.
\<close>

definition api_get ::
  "(string \<Rightarrow> string \<Rightarrow> error + response) \<Rightarrow> int \<Rightarrow> int \<Rightarrow> (string \<rightharpoonup> string) \<Rightarrow>
   (error + response) \<times> event list" where
  "api_get model_predict start_time end_time args =
     (let text = args ''text'';
          hypothesis = args ''hypothesis''
      in case check_if_none text of
           Inl e \<Rightarrow> (Inl e, [])
         | Inr text \<Rightarrow>
             (case check_if_none hypothesis of
                Inl e \<Rightarrow> (Inl e, [])
              | Inr hypothesis \<Rightarrow>
                  (let ev = [Info [Lit ''Query with params={text: '', Str text,
                                   Lit '', hypothesis: '', Str hypothesis, Lit ''}''],
                             Predict text hypothesis]
                   in case model_predict text hypothesis of
                        Inl e \<Rightarrow> (Inl e, ev)
                      | Inr result \<Rightarrow>
                          (let dif_time = end_time - start_time
                           in (Inr result,
                               ev @ [Info [Lit ''API; ModelOne Get response; difference: '',
                                           Timedelta dif_time]])))))"

subsection \<open>Serving\<close>

text \<open>
  The two routes of \<open>start.py\<close>: \<open>ns1\<close> is \<open>nli_model\<close>, \<open>ns2\<close> is \<open>fact_checking_model\<close>.
  A request names its route and brings its query parameters and the two clock readings of
  its handler. Requests are handled one after the other, each from the globals the
  previous one left.
\<close>

datatype route = Nli_model | Fact_checking_model

record request =
  route :: route
  args :: "string \<rightharpoonup> string"
  start_time :: int
  end_time :: int

datatype body = Verdict response | Results Result

definition dispatch :: "globals \<Rightarrow> request \<Rightarrow> (error + body) \<times> event list \<times> globals" where
  "dispatch g r =
     (case route r of
        Nli_model \<Rightarrow>
          (case nli_model_get g (start_time r) (end_time r) (args r) of
             (res, ev, g') \<Rightarrow> (map_sum id Verdict res, ev, g'))
      | Fact_checking_model \<Rightarrow>
          (case fact_checking_model_get g (start_time r) (end_time r) (args r) of
             (res, ev, g') \<Rightarrow> (map_sum id Results res, ev, g')))"

fun serve :: "globals \<Rightarrow> request list \<Rightarrow> (error + body) list \<times> event list \<times> globals" where
  "serve g [] = ([], [], g)"
| "serve g (r # rs) =
     (case dispatch g r of
        (res, ev, g') \<Rightarrow>
          (case serve g' rs of
             (ress, evs, g'') \<Rightarrow> (res # ress, ev @ evs, g'')))"

text \<open>
  The script from its first line to \<open>app.run\<close>, run as the main module (so the guard
  \<open>__name__ == '__main__'\<close> before \<open>app.run\<close> holds). \<open>read_config\<close> stands for
  \<open>open(config_path)\<close> with \<open>json.load\<close>, and \<open>WikiFactChecker_init\<close> for the constructor
  \<open>WikiFactChecker(config, logger=logger)\<close>; either returns or raises, and an exception at
  module level ends the process. The result is the trace of events and either the
  exception or the globals with the responses served.
\<close>

definition main ::
  "(string \<Rightarrow> error + (string \<rightharpoonup> json)) \<Rightarrow> ((string \<rightharpoonup> json) \<Rightarrow> error + WikiFactChecker) \<Rightarrow>
   string \<Rightarrow> request list \<Rightarrow> event list \<times> (error + globals \<times> (error + body) list)" where
  "main read_config WikiFactChecker_init config_path' requests =
     (let ev0 = [Info [Lit ''Reading config from '', Absolute config_path']]
      in case read_config config_path' of
           Inl e \<Rightarrow> (ev0, Inl e)
         | Inr config' \<Rightarrow>
             (let ev1 = ev0 @ [Info [Lit ''Using config '', Dict config'],
                               Info [Lit ''Loading models ...''],
                               Load config']
              in case WikiFactChecker_init config' of
                   Inl e \<Rightarrow> (ev1, Inl e)
                 | Inr complex_model' \<Rightarrow>
                     (let ev2 = ev1 @ [Info [Lit ''Models loaded.'']];
                          g = \<lparr> config_path = config_path',
                                config = config',
                                complex_model = complex_model',
                                api = create_api config' \<rparr>
                      in case serve g requests of
                           (ress, evs, g') \<Rightarrow>
                             (ev2 @ [Run app_run_args] @ evs, Inr (g', ress)))))"

subsection \<open>Sample objects\<close>

text \<open>
  A model and the globals built on it, for the concrete instances further down. The
  sample model judges every pair with a non-empty second sentence as entailment (with
  probabilities 0.25, 0.5 and 0.25 as bit patterns) and fails on an empty one. For a
  claim its \<open>predict_all\<close> returns two entries: a full record, and an entry for a pair
  whose inference failed, which carries the failure under a key \<open>error\<close>. The model
  \<open>raising_model\<close> differs in that its \<open>predict_all\<close> raises.
\<close>

definition sample_verdict :: response where
  "sample_verdict =
     \<lparr> label = ''entailment'',
       contradiction_prob = 0x3FD0000000000000,
       entailment_prob = 0x3FE0000000000000,
       neutral_prob = 0x3FD0000000000000 \<rparr>"

definition sample_entry :: "string \<Rightarrow> (string \<rightharpoonup> json)" where
  "sample_entry c =
     [''claim'' \<mapsto> JString c,
      ''text'' \<mapsto> JString ''The Eiffel Tower is located in Paris, France'',
      ''article'' \<mapsto> JString ''Eiffel Tower'',
      ''label'' \<mapsto> JString ''entailment'',
      ''contradiction_prob'' \<mapsto> JFloat 0x3FD0000000000000,
      ''entailment_prob'' \<mapsto> JFloat 0x3FE0000000000000,
      ''neutral_prob'' \<mapsto> JFloat 0x3FD0000000000000]"

definition failed_entry :: "string \<Rightarrow> (string \<rightharpoonup> json)" where
  "failed_entry c =
     [''claim'' \<mapsto> JString c,
      ''text'' \<mapsto> JString [],
      ''article'' \<mapsto> JString ''Paris'',
      ''error'' \<mapsto> JString ''InferenceError'']"

definition sample_model :: WikiFactChecker where
  "sample_model =
     \<lparr> model_level_two_predict = (\<lambda>t h. if h = [] then Inl InferenceError else Inr sample_verdict),
       predict_all = (\<lambda>c. Inr [sample_entry c, failed_entry c]) \<rparr>"

definition raising_model :: WikiFactChecker where
  "raising_model =
     \<lparr> model_level_two_predict = (\<lambda>t h. if h = [] then Inl InferenceError else Inr sample_verdict),
       predict_all = (\<lambda>c. Inl InferenceError) \<rparr>"

definition sample_globals :: globals where
  "sample_globals =
     \<lparr> config_path = ''configs/inference/sentence_bert_config.json'',
       config = Map.empty,
       complex_model = sample_model,
       api = create_api Map.empty \<rparr>"

definition raising_globals :: globals where
  "raising_globals =
     \<lparr> config_path = ''configs/inference/sentence_bert_config.json'',
       config = Map.empty,
       complex_model = raising_model,
       api = create_api Map.empty \<rparr>"

section \<open>Properties of the trainer\<close>

subsection \<open>The sample loop\<close>

lemma nli_samples_missing_label:
  "l2i r3 = None \<Longrightarrow> (r0, r1, r2, r3) \<in> set rows \<Longrightarrow>
   \<exists>k. nli_samples l2i rows samples = Inl (KeyError k) \<and> l2i k = None"
proof (induction rows arbitrary: samples)
  case Nil
  then show ?case by simp
next
  case (Cons row rows)
  obtain a b c d where row: "row = (a, b, c, d)" by (cases row)
  show ?case
  proof (cases "l2i d")
    case None
    then show ?thesis by (simp add: row)
  next
    case (Some label_id)
    with Cons.prems row have "(r0, r1, r2, r3) \<in> set rows" by auto
    from Cons.IH [OF Cons.prems(1) this] Some show ?thesis by (simp add: row)
  qed
qed

lemma nli_samples_error:
  "nli_samples l2i rows samples = Inl e \<Longrightarrow> \<exists>k. e = KeyError k \<and> l2i k = None"
proof (induction rows arbitrary: samples)
  case Nil
  then show ?case by simp
next
  case (Cons row rows)
  obtain a b c d where row: "row = (a, b, c, d)" by (cases row)
  show ?case
  proof (cases "l2i d")
    case None
    with Cons.prems row show ?thesis by auto
  next
    case (Some label_id)
    with Cons.prems row Cons.IH show ?thesis by simp
  qed
qed

lemma snli_no_fever:
  "k \<in> {''SUPPORTS'', ''REFUTES''} \<Longrightarrow>
   [''contradiction'' \<mapsto> 0::int, ''entailment'' \<mapsto> 1, ''neutral'' \<mapsto> 2] k = None"
  by auto

text \<open>
  Claim C10. Whatever the constructor is given, \<open>label2int\<close> is the three-way SNLI
  mapping, so the two-way mapping of the other branch never becomes the field's value; and
  when any row of the train, dev or test examples carries the label \<open>SUPPORTS\<close> or
  \<open>REFUTES\<close>, \<open>preparing_data_fever\<close> ends in a \<open>KeyError\<close> for a label that the mapping
  lacks, with no samples produced.
\<close>

theorem BertTrainer_label2int_snli:
  "label2int (BertTrainer_init trp dvp tsp bm bs pts) =
     [''contradiction'' \<mapsto> 0, ''entailment'' \<mapsto> 1, ''neutral'' \<mapsto> 2] \<and>
   ((\<exists>(r0, r1, r2, r3) \<in> set (examples trp ''train_s'' @ examples dvp ''dev_s'' @ examples tsp ''test_s'').
        r3 = ''SUPPORTS'' \<or> r3 = ''REFUTES'') \<longrightarrow>
    (\<exists>k. preparing_data_fever examples (BertTrainer_init trp dvp tsp bm bs pts) = Inl (KeyError k) \<and>
         label2int (BertTrainer_init trp dvp tsp bm bs pts) k = None))"
proof -
  define self where "self = BertTrainer_init trp dvp tsp bm bs pts"
  have "label2int self = [''contradiction'' \<mapsto> 0, ''entailment'' \<mapsto> 1, ''neutral'' \<mapsto> 2] \<and>
     ((\<exists>(r0, r1, r2, r3) \<in> set (examples trp ''train_s'' @ examples dvp ''dev_s'' @ examples tsp ''test_s'').
          r3 = ''SUPPORTS'' \<or> r3 = ''REFUTES'') \<longrightarrow>
      (\<exists>k. preparing_data_fever examples self = Inl (KeyError k) \<and> label2int self k = None))"
  proof
  show l: "label2int self = [''contradiction'' \<mapsto> 0, ''entailment'' \<mapsto> 1, ''neutral'' \<mapsto> 2]"
    by (simp add: self_def BertTrainer_init_def)
  show "(\<exists>(r0, r1, r2, r3) \<in> set (examples trp ''train_s'' @ examples dvp ''dev_s'' @ examples tsp ''test_s'').
          r3 = ''SUPPORTS'' \<or> r3 = ''REFUTES'') \<longrightarrow>
      (\<exists>k. preparing_data_fever examples self = Inl (KeyError k) \<and> label2int self k = None)"
  proof
    assume "\<exists>(r0, r1, r2, r3) \<in> set (examples trp ''train_s'' @ examples dvp ''dev_s'' @ examples tsp ''test_s'').
          r3 = ''SUPPORTS'' \<or> r3 = ''REFUTES''"
    then obtain r0 r1 r2 r3 where
      mem: "(r0, r1, r2, r3) \<in> set (examples trp ''train_s'') \<or>
            (r0, r1, r2, r3) \<in> set (examples dvp ''dev_s'') \<or>
            (r0, r1, r2, r3) \<in> set (examples tsp ''test_s'')"
      and fever: "r3 \<in> {''SUPPORTS'', ''REFUTES''}"
      by auto
    have none: "label2int self r3 = None"
      unfolding l using fever by (rule snli_no_fever)
    have paths: "train_path self = trp" "dev_path self = dvp" "test_path self = tsp"
      by (simp_all add: self_def BertTrainer_init_def)
    let ?tr = "nli_samples (label2int self) (examples trp ''train_s'') []"
    let ?dv = "nli_samples (label2int self) (examples dvp ''dev_s'') []"
    let ?ts = "nli_samples (label2int self) (examples tsp ''test_s'') []"
    show "\<exists>k. preparing_data_fever examples self = Inl (KeyError k) \<and> label2int self k = None"
    proof (cases ?tr)
      case (Inl e)
      from nli_samples_error [OF Inl] Inl show ?thesis
        by (auto simp: preparing_data_fever_def paths)
    next
      case tr: (Inr train_nli_samples)
      with nli_samples_missing_label [of "label2int self" r3 r0 r1 r2 "examples trp ''train_s''" "[]", OF none]
      have mem_tr: "(r0, r1, r2, r3) \<notin> set (examples trp ''train_s'')" by auto
      show ?thesis
      proof (cases ?dv)
        case (Inl e)
        from nli_samples_error [OF Inl] Inl tr show ?thesis
          by (auto simp: preparing_data_fever_def paths)
      next
        case dv: (Inr dev_nli_samples)
        with nli_samples_missing_label [of "label2int self" r3 r0 r1 r2 "examples dvp ''dev_s''" "[]", OF none]
        have "(r0, r1, r2, r3) \<notin> set (examples dvp ''dev_s'')" by auto
        with mem mem_tr have "(r0, r1, r2, r3) \<in> set (examples tsp ''test_s'')" by simp
        from nli_samples_missing_label [of "label2int self" r3 r0 r1 r2 "examples tsp ''test_s''" "[]", OF none this] tr dv show ?thesis
          by (auto simp: preparing_data_fever_def paths)
      qed
    qed
  qed
  qed
  then show ?thesis unfolding self_def .
qed

theorem BertTrainer_label2int_snli_witness:
  "(\<exists>(r0, r1, r2, r3) \<in> set ((\<lambda>p s. if s = ''dev_s'' then [(''d0'', ''a'', ''b'', ''SUPPORTS'')]
                                      else [(''t0'', ''a'', ''b'', ''entailment'')]) ''tr.csv'' ''train_s'' @
                              (\<lambda>p s. if s = ''dev_s'' then [(''d0'', ''a'', ''b'', ''SUPPORTS'')]
                                      else [(''t0'', ''a'', ''b'', ''entailment'')]) ''dv.csv'' ''dev_s'' @
                              (\<lambda>p s. if s = ''dev_s'' then [(''d0'', ''a'', ''b'', ''SUPPORTS'')]
                                      else [(''t0'', ''a'', ''b'', ''entailment'')]) ''ts.csv'' ''test_s'').
       r3 = ''SUPPORTS'' \<or> r3 = ''REFUTES'') \<and>
   (\<exists>k. preparing_data_fever
          (\<lambda>p s. if s = ''dev_s'' then [(''d0'', ''a'', ''b'', ''SUPPORTS'')]
                  else [(''t0'', ''a'', ''b'', ''entailment'')])
          (BertTrainer_init ''tr.csv'' ''dv.csv'' ''ts.csv'' ''bert-base-uncased'' 16 ''out/'') =
        Inl (KeyError k))"
proof -
  let ?examples = "\<lambda>(p::string) s. if s = ''dev_s'' then [(''d0'', ''a'', ''b'', ''SUPPORTS'')]
                     else [(''t0'', ''a'', ''b'', ''entailment'')]"
  have h: "\<exists>(r0, r1, r2, r3) \<in> set (?examples ''tr.csv'' ''train_s'' @ ?examples ''dv.csv'' ''dev_s'' @
                                    ?examples ''ts.csv'' ''test_s'').
             r3 = ''SUPPORTS'' \<or> r3 = ''REFUTES''"
    by simp
  from BertTrainer_label2int_snli
         [of "''tr.csv''" "''dv.csv''" "''ts.csv''" "''bert-base-uncased''" 16 "''out/''" ?examples] h
  have "\<exists>k. preparing_data_fever ?examples
               (BertTrainer_init ''tr.csv'' ''dv.csv'' ''ts.csv'' ''bert-base-uncased'' 16 ''out/'') =
             Inl (KeyError k)"
    by blast
  with h show ?thesis by (rule conjI)
qed

subsection \<open>The epoch loop\<close>

lemma train_loop_eq:
  "train_loop fit evaluate n i (vs, ts, w) =
     (vs @ map (\<lambda>k. dev_score fit evaluate ((epoch fit evaluate ^^ k) w)) [0..<nat (n - i)],
      ts @ map (\<lambda>k. test_score fit evaluate ((epoch fit evaluate ^^ k) w)) [0..<nat (n - i)],
      (epoch fit evaluate ^^ nat (n - i)) w)"
proof (induction fit evaluate n i "(vs, ts, w)" arbitrary: vs ts w rule: train_loop.induct)
  case (1 fit evaluate n i vs ts w)
  show ?case
  proof (cases "i < n")
    case False
    then show ?thesis by (simp add: train_loop.simps [of fit evaluate n i])
  next
    case True
    obtain v w2 where e1: "evaluate dev_evaluator (fit w) = (v, w2)"
      by (cases "evaluate dev_evaluator (fit w)")
    obtain t w3 where e2: "evaluate test_evaluator w2 = (t, w3)"
      by (cases "evaluate test_evaluator w2")
    have m: "nat (n - i) = Suc (nat (n - (i + 1)))" using True by simp
    have w3: "w3 = epoch fit evaluate w" by (simp add: epoch_def e1 e2)
    have v: "v = dev_score fit evaluate w" by (simp add: dev_score_def e1)
    have t: "t = test_score fit evaluate w" by (simp add: test_score_def e1 e2)
    have ih: "train_loop fit evaluate n (i + 1) (vs @ [v], ts @ [t], w3) =
       ((vs @ [v]) @ map (\<lambda>k. dev_score fit evaluate ((epoch fit evaluate ^^ k) w3)) [0..<nat (n - (i + 1))],
        (ts @ [t]) @ map (\<lambda>k. test_score fit evaluate ((epoch fit evaluate ^^ k) w3)) [0..<nat (n - (i + 1))],
        (epoch fit evaluate ^^ nat (n - (i + 1))) w3)"
      using "1.hyps" [OF True refl e1 [symmetric] refl e2 [symmetric] refl] .
    have step: "train_loop fit evaluate n i (vs, ts, w) =
        train_loop fit evaluate n (i + 1) (vs @ [v], ts @ [t], w3)"
      using True by (simp add: train_loop.simps [of fit evaluate n i] e1 e2)
    show ?thesis
      unfolding step ih m
      by (simp add: map_upt_Suc funpow_swap1 w3 v t del: upt_Suc)
  qed
qed


text \<open>
  Claim C9. For every \<open>number_of_epochs \<ge> 0\<close>, \<open>train_model\<close> runs that many epochs (the
  weights it leaves are those after \<open>number_of_epochs\<close> rounds of fit, dev evaluation, test
  evaluation) and returns two lists of exactly that length, whose \<open>i\<close>-th elements are the
  dev score and the test score measured right after the \<open>i\<close>-th fit, in epoch order.
\<close>

theorem train_model_epochs:
  assumes "0 \<le> number_of_epochs"
  shows "case train_model fit evaluate number_of_epochs w of
           (validation_performance, test_performance, w') \<Rightarrow>
             length validation_performance = nat number_of_epochs \<and>
             length test_performance = nat number_of_epochs \<and>
             (\<forall>i < nat number_of_epochs.
                validation_performance ! i = dev_score fit evaluate ((epoch fit evaluate ^^ i) w) \<and>
                test_performance ! i = test_score fit evaluate ((epoch fit evaluate ^^ i) w)) \<and>
             w' = (epoch fit evaluate ^^ nat number_of_epochs) w"
proof -
  have n: "nat (number_of_epochs - 0) = nat number_of_epochs" by simp
  show ?thesis
    unfolding train_model_def train_loop_eq n by simp
qed

theorem train_model_epochs_witness:
  "(0::int) \<le> 2 \<and>
   (case train_model (\<lambda>w::int. w + 1)
           (\<lambda>e w. (if e = dev_evaluator then 10 * w else 100 * w, w)) 2 0 of
      (validation_performance, test_performance, w') \<Rightarrow>
        length validation_performance = 2 \<and> length test_performance = 2 \<and>
        validation_performance ! 0 = 10 \<and> validation_performance ! 1 = 20 \<and>
        test_performance ! 0 = 100 \<and> test_performance ! 1 = 200 \<and> w' = 2)"
proof -
  let ?fit = "\<lambda>w::int. w + 1"
  let ?evaluate = "\<lambda>e (w::int). (if e = dev_evaluator then 10 * w else 100 * w, w)"
  have h: "(0::int) \<le> 2" by simp
  have d: "test_evaluator \<noteq> dev_evaluator"
    by (simp add: dev_evaluator_def test_evaluator_def)
  have e: "epoch ?fit ?evaluate = (\<lambda>w. w + 1)"
    by (simp add: epoch_def fun_eq_iff)
  have s: "dev_score ?fit ?evaluate = (\<lambda>w. 10 * (w + 1))"
      "test_score ?fit ?evaluate = (\<lambda>w. 100 * (w + 1))"
    using d by (simp_all add: dev_score_def test_score_def fun_eq_iff)
  obtain vs ts w' where t: "train_model ?fit ?evaluate 2 0 = (vs, ts, w')"
    by (cases "train_model ?fit ?evaluate 2 0")
  from train_model_epochs [OF h, of ?fit ?evaluate 0] t
  have len: "length vs = 2" "length ts = 2"
    and nth: "\<forall>i<2. vs ! i = dev_score ?fit ?evaluate ((epoch ?fit ?evaluate ^^ i) 0) \<and>
                    ts ! i = test_score ?fit ?evaluate ((epoch ?fit ?evaluate ^^ i) 0)"
    and w': "w' = (epoch ?fit ?evaluate ^^ 2) 0"
    by simp_all
  from nth have "vs ! 0 = 10" "ts ! 0 = 100" unfolding e s by simp_all
  moreover from nth have "vs ! 1 = 20 \<and> ts ! 1 = 200" unfolding e s by force
  moreover from w' have "w' = 2" unfolding e by (simp add: numeral_2_eq_2)
  ultimately show ?thesis using len t by simp
qed

section \<open>Properties of the service\<close>

subsection \<open>Input validation\<close>

lemma check_if_none_Inr:
  "check_if_none x = Inr s \<longleftrightarrow> x = Some s \<and> s \<noteq> []"
  by (auto simp: check_if_none_def split: option.splits)

text \<open>
  Claim C1. The route \<open>/nli_model/\<close> of \<open>start.py\<close> documents \<open>claim\<close> and \<open>hypothesis\<close> as
  its parameters, but the handler validates \<open>text\<close> and \<open>hypothesis\<close>. A request that
  leaves \<open>claim\<close> out and brings \<open>text\<close> and \<open>hypothesis\<close> is not rejected: the model is
  called on the pair and its verdict is the response.
\<close>

theorem nli_model_get_without_claim:
  "[''text'' \<mapsto> ''The Eiffel Tower is in Paris'',
    ''hypothesis'' \<mapsto> ''The Eiffel Tower is located in Paris, France''] ''claim'' = None \<and>
   nli_model_get sample_globals 0 7
     [''text'' \<mapsto> ''The Eiffel Tower is in Paris'',
      ''hypothesis'' \<mapsto> ''The Eiffel Tower is located in Paris, France''] =
     (Inr sample_verdict,
      [Info [Lit ''Query with params={text: '', Str ''The Eiffel Tower is in Paris'',
             Lit '', hypothesis: '', Str ''The Eiffel Tower is located in Paris, France'',
             Lit ''}''],
       Predict ''The Eiffel Tower is in Paris'' ''The Eiffel Tower is located in Paris, France'',
       Info [Lit ''[MODEL_LEVEL_TWO] API; ModelOne Get response; difference: '', Timedelta 7],
       Info [Lit ''[MODEL_LEVEL_TWO] API; ModelFull sending the response'']],
      sample_globals)"
  by (simp add: nli_model_get_def check_if_none_def sample_globals_def sample_model_def)

text \<open>
  Claim C2. The route \<open>/nli_model/\<close> of \<open>start.py\<close> documents the parameters \<open>claim\<close> and
  \<open>hypothesis\<close>, but its handler reads \<open>text\<close> and \<open>hypothesis\<close>: the value of \<open>claim\<close> has no
  influence on what the handler does, and a request that brings \<open>claim\<close> and \<open>hypothesis\<close>
  only is rejected for its missing \<open>text\<close> instead of being answered with the verdict of
  the pair.
\<close>

theorem nli_model_get_ignores_claim:
  "nli_model_get g t0 t1 (params(''claim'' := v)) = nli_model_get g t0 t1 params \<and>
   nli_model_get g t0 t1
     [''claim'' \<mapsto> ''The Eiffel Tower is in Paris'',
      ''hypothesis'' \<mapsto> ''The Eiffel Tower is located in Paris, France''] =
     (Inl InvalidInputError, [], g)"
  by (simp add: nli_model_get_def check_if_none_def)

subsection \<open>Batch fact check\<close>

lemma marshal_keys: "map fst (marshal flds data) = flds"
  by (simp add: marshal_def comp_def)

text \<open>
  The sample model reports the failure of its second pair under the key \<open>error\<close>; the
  endpoint returns the seven declared fields of that entry and nothing of the failure.
  When \<open>predict_all\<close> raises instead, the request ends with the exception and no results.
\<close>

theorem failure_not_reported_counterexample:
  "fst (fact_checking_model_get sample_globals 0 7 [''claim'' \<mapsto> ''The Eiffel Tower is in Paris'']) =
     Inr \<lparr> results =
       [[(''claim'', JString ''The Eiffel Tower is in Paris''),
         (''text'', JString ''The Eiffel Tower is located in Paris, France''),
         (''article'', JString ''Eiffel Tower''),
         (''label'', JString ''entailment''),
         (''contradiction_prob'', JFloat 0x3FD0000000000000),
         (''entailment_prob'', JFloat 0x3FE0000000000000),
         (''neutral_prob'', JFloat 0x3FD0000000000000)],
        [(''claim'', JString ''The Eiffel Tower is in Paris''),
         (''text'', JString []),
         (''article'', JString ''Paris''),
         (''label'', JNull),
         (''contradiction_prob'', JNull),
         (''entailment_prob'', JNull),
         (''neutral_prob'', JNull)]] \<rparr> \<and>
   fst (fact_checking_model_get raising_globals 0 7 [''claim'' \<mapsto> ''The Eiffel Tower is in Paris'']) =
     Inl InferenceError"
  by (simp add: fact_checking_model_get_def check_if_none_def sample_globals_def sample_model_def
        raising_globals_def raising_model_def marshal_def response_full_def
        sample_entry_def failed_entry_def)

text \<open>
  Claim C3, as amended. For a request to \<open>/fact_checking_model/\<close> with a non-empty claim:
  when \<open>predict_all\<close> returns a list of entries, the endpoint returns as many results, in
  the same order, the \<open>i\<close>-th being the seven declared fields of the \<open>i\<close>-th entry (null
  where the entry lacks one, and no other key); when \<open>predict_all\<close> raises, the request
  ends with that exception and without results.
\<close>

theorem fact_checking_results_marshalled:
  assumes "params ''claim'' = Some c" and "c \<noteq> []"
  shows "case predict_all (complex_model g) c of
           Inl e \<Rightarrow> fst (fact_checking_model_get g t0 t1 params) = Inl e
         | Inr entries \<Rightarrow>
             (\<exists>res. fst (fact_checking_model_get g t0 t1 params) = Inr res \<and>
                    length (results res) = length entries \<and>
                    (\<forall>i < length entries.
                       results res ! i = marshal response_full (entries ! i) \<and>
                       map fst (results res ! i) = response_full \<and>
                       (\<forall>k \<in> set response_full.
                          map_of (results res ! i) k =
                            Some (case (entries ! i) k of None \<Rightarrow> JNull | Some v \<Rightarrow> v))))"
proof -
  from assms have chk: "check_if_none (params ''claim'') = Inr c"
    by (simp add: check_if_none_Inr)
  show ?thesis
  proof (cases "predict_all (complex_model g) c")
    case (Inl e)
    then show ?thesis by (simp add: fact_checking_model_get_def chk)
  next
    case (Inr entries)
    let ?res = "\<lparr> results = map (marshal response_full) entries \<rparr>"
    have r: "fst (fact_checking_model_get g t0 t1 params) = Inr ?res"
      by (simp add: fact_checking_model_get_def chk Inr)
    have v: "map_of (marshal response_full d) k =
               Some (case d k of None \<Rightarrow> JNull | Some v \<Rightarrow> v)"
      if "k \<in> set response_full" for d k
      using that by (auto simp: marshal_def response_full_def)
    have "\<forall>i < length entries.
            results ?res ! i = marshal response_full (entries ! i) \<and>
            map fst (results ?res ! i) = response_full \<and>
            (\<forall>k \<in> set response_full.
               map_of (results ?res ! i) k =
                 Some (case (entries ! i) k of None \<Rightarrow> JNull | Some v \<Rightarrow> v))"
      by (simp add: marshal_keys v)
    moreover have "length (results ?res) = length entries" by simp
    ultimately have "\<exists>res. fst (fact_checking_model_get g t0 t1 params) = Inr res \<and>
                    length (results res) = length entries \<and>
                    (\<forall>i < length entries.
                       results res ! i = marshal response_full (entries ! i) \<and>
                       map fst (results res ! i) = response_full \<and>
                       (\<forall>k \<in> set response_full.
                          map_of (results res ! i) k =
                            Some (case (entries ! i) k of None \<Rightarrow> JNull | Some v \<Rightarrow> v)))"
      using r by blast
    then show ?thesis by (simp add: Inr)
  qed
qed

theorem fact_checking_results_marshalled_witness:
  "[''claim'' \<mapsto> ''The Eiffel Tower is in Paris''] ''claim'' = Some ''The Eiffel Tower is in Paris'' \<and>
   ''The Eiffel Tower is in Paris'' \<noteq> [] \<and>
   (\<exists>res. fst (fact_checking_model_get sample_globals 0 7
                  [''claim'' \<mapsto> ''The Eiffel Tower is in Paris'']) = Inr res \<and>
          length (results res) = 2 \<and>
          results res ! 0 = marshal response_full (sample_entry ''The Eiffel Tower is in Paris'') \<and>
          results res ! 1 = marshal response_full (failed_entry ''The Eiffel Tower is in Paris'') \<and>
          map fst (results res ! 1) = response_full)"
proof -
  let ?c = "''The Eiffel Tower is in Paris''"
  let ?entries = "[sample_entry ?c, failed_entry ?c]"
  have h1: "[''claim'' \<mapsto> ?c] ''claim'' = Some ?c" by simp
  have h2: "?c \<noteq> []" by simp
  have p: "predict_all (complex_model sample_globals) ?c = Inr ?entries"
    by (simp add: sample_globals_def sample_model_def)
  from fact_checking_results_marshalled
         [of "[''claim'' \<mapsto> ?c]" ?c sample_globals 0 7, OF h1 h2]
  obtain res where r: "fst (fact_checking_model_get sample_globals 0 7 [''claim'' \<mapsto> ?c]) = Inr res"
    and len: "length (results res) = length ?entries"
    and nth: "\<forall>i < length ?entries.
                results res ! i = marshal response_full (?entries ! i) \<and>
                map fst (results res ! i) = response_full \<and>
                (\<forall>k \<in> set response_full.
                   map_of (results res ! i) k =
                     Some (case (?entries ! i) k of None \<Rightarrow> JNull | Some v \<Rightarrow> v))"
    unfolding p by auto
  from len have l: "length (results res) = 2" by simp
  from nth have "0 < length ?entries \<longrightarrow>
      results res ! 0 = marshal response_full (?entries ! 0)"
    by blast
  then have r0: "results res ! 0 = marshal response_full (sample_entry ?c)" by simp
  from nth have "1 < length ?entries \<longrightarrow>
      results res ! 1 = marshal response_full (?entries ! 1) \<and>
      map fst (results res ! 1) = response_full"
    by blast
  then have r1: "results res ! 1 = marshal response_full (failed_entry ?c)"
    "map fst (results res ! 1) = response_full"
    by (simp_all add: marshal_keys)
  from r l r0 r1 h1 h2 show ?thesis by blast
qed

subsection \<open>The frame of the handlers\<close>

lemma nli_model_get_globals: "snd (snd (nli_model_get g t0 t1 a)) = g"
  by (simp add: nli_model_get_def Let_def split: sum.splits)

lemma fact_checking_model_get_globals: "snd (snd (fact_checking_model_get g t0 t1 a)) = g"
  by (simp add: fact_checking_model_get_def Let_def split: sum.splits)

lemma dispatch_globals: "snd (snd (dispatch g r)) = g"
proof (cases "route r")
  case Nli_model
  with nli_model_get_globals [of g "start_time r" "end_time r" "args r"]
  show ?thesis by (auto simp: dispatch_def split: prod.splits)
next
  case Fact_checking_model
  with fact_checking_model_get_globals [of g "start_time r" "end_time r" "args r"]
  show ?thesis by (auto simp: dispatch_def split: prod.splits)
qed

lemma nli_model_get_events:
  "filter is_Load (fst (snd (nli_model_get g t0 t1 a))) = [] \<and>
   filter is_Run (fst (snd (nli_model_get g t0 t1 a))) = []"
  by (simp add: nli_model_get_def Let_def split: sum.splits)

lemma fact_checking_model_get_events:
  "filter is_Load (fst (snd (fact_checking_model_get g t0 t1 a))) = [] \<and>
   filter is_Run (fst (snd (fact_checking_model_get g t0 t1 a))) = []"
  by (simp add: fact_checking_model_get_def Let_def split: sum.splits)

lemma dispatch_events:
  "filter is_Load (fst (snd (dispatch g r))) = [] \<and> filter is_Run (fst (snd (dispatch g r))) = []"
proof (cases "route r")
  case Nli_model
  with nli_model_get_events [of g "start_time r" "end_time r" "args r"]
  show ?thesis by (auto simp: dispatch_def split: prod.splits)
next
  case Fact_checking_model
  with fact_checking_model_get_events [of g "start_time r" "end_time r" "args r"]
  show ?thesis by (auto simp: dispatch_def split: prod.splits)
qed

lemma serve_eq:
  "serve g rs = (map (\<lambda>r. fst (dispatch g r)) rs, concat (map (\<lambda>r. fst (snd (dispatch g r))) rs), g)"
proof (induction rs)
  case Nil
  show ?case by simp
next
  case (Cons r rs)
  obtain res ev g' where d: "dispatch g r = (res, ev, g')" by (cases "dispatch g r")
  with dispatch_globals [of g r] have g': "g' = g" by simp
  show ?case by (simp add: d g' Cons.IH)
qed

lemma serve_events:
  "filter is_Load (fst (snd (serve g rs))) = [] \<and> filter is_Run (fst (snd (serve g rs))) = []"
  by (induction rs) (simp_all add: serve_eq dispatch_events)

subsection \<open>Startup\<close>

text \<open>
  Claim C6. In every run that gets as far as serving (the configuration is read and the
  constructor returns a model), the trace up to \<open>app.run\<close> contains
  exactly one construction of the model and no call into it, the trace after \<open>app.run\<close>
  contains no construction; the globals after all requests are the ones bound at startup,
  with the model the constructor returned; each response is what the handler computes
  from these globals and its own request alone; and no handler changes the globals.
\<close>

theorem model_loaded_once_and_kept:
  assumes "read_config path = Inr cfg" and "WikiFactChecker_init cfg = Inr m"
  shows "\<exists>startup served g responses.
           main read_config WikiFactChecker_init path requests =
             (startup @ [Run app_run_args] @ served, Inr (g, responses)) \<and>
           filter is_Load startup = [Load cfg] \<and> filter is_prediction startup = [] \<and>
           filter is_Load served = [] \<and> filter is_Run served = [] \<and>
           g = \<lparr> config_path = path, config = cfg, complex_model = m, api = create_api cfg \<rparr> \<and>
           responses = map (\<lambda>r. fst (dispatch g r)) requests \<and>
           (\<forall>r. snd (snd (dispatch g r)) = g)"
proof -
  let ?g = "\<lparr> config_path = path, config = cfg, complex_model = m, api = create_api cfg \<rparr>"
  let ?startup = "[Info [Lit ''Reading config from '', Absolute path],
                   Info [Lit ''Using config '', Dict cfg],
                   Info [Lit ''Loading models ...''],
                   Load cfg,
                   Info [Lit ''Models loaded.'']]"
  let ?served = "fst (snd (serve ?g requests))"
  have "main read_config WikiFactChecker_init path requests =
      (?startup @ [Run app_run_args] @ ?served, Inr (?g, map (\<lambda>r. fst (dispatch ?g r)) requests))"
    by (simp add: main_def assms serve_eq Let_def)
  moreover have "filter is_Load ?startup = [Load cfg]" "filter is_prediction ?startup = []"
    by simp_all
  moreover have "filter is_Load ?served = []" "filter is_Run ?served = []"
    using serve_events [of ?g requests] by simp_all
  moreover have "\<forall>r. snd (snd (dispatch ?g r)) = ?g"
    by (simp add: dispatch_globals)
  ultimately show ?thesis by blast
qed

theorem model_loaded_once_and_kept_witness:
  "(\<lambda>p. Inr Map.empty) ''configs/inference/sentence_bert_config.json'' = Inr Map.empty \<and>
   (\<lambda>c. Inr sample_model) (Map.empty :: string \<rightharpoonup> json) = Inr sample_model \<and>
   (\<exists>startup served g responses.
      main (\<lambda>p. Inr Map.empty) (\<lambda>c. Inr sample_model)
        ''configs/inference/sentence_bert_config.json''
        [\<lparr> route = Nli_model,
            args = [''text'' \<mapsto> ''The Eiffel Tower is in Paris'',
                    ''hypothesis'' \<mapsto> ''The Eiffel Tower is located in Paris, France''],
            start_time = 0, end_time = 7 \<rparr>,
         \<lparr> route = Fact_checking_model,
            args = [''claim'' \<mapsto> ''The Eiffel Tower is in Paris''],
            start_time = 10, end_time = 30 \<rparr>] =
        (startup @ [Run app_run_args] @ served, Inr (g, responses)) \<and>
      filter is_Load startup = [Load Map.empty] \<and> filter is_prediction startup = [] \<and>
      filter is_Load served = [] \<and> filter is_Run served = [] \<and>
      complex_model g = sample_model \<and> length responses = 2)"
proof -
  let ?rc = "\<lambda>p::string. Inr Map.empty :: error + (string \<rightharpoonup> json)"
  let ?init = "\<lambda>c::string \<rightharpoonup> json. Inr sample_model :: error + WikiFactChecker"
  let ?path = "''configs/inference/sentence_bert_config.json''"
  have h1: "?rc ?path = Inr Map.empty" by simp
  have h2: "?init Map.empty = Inr sample_model" by simp
  from model_loaded_once_and_kept [of ?rc ?path Map.empty ?init sample_model, OF h1 h2]
  show ?thesis by fastforce
qed

text \<open>
  Claim C7. If the constructor of the model raises, the script ends with that exception:
  \<open>app.run\<close> is never reached and no request is answered, whatever requests are waiting.
\<close>

theorem load_failure_aborts:
  assumes "read_config path = Inr cfg" and "WikiFactChecker_init cfg = Inl e"
  shows "\<exists>events. main read_config WikiFactChecker_init path requests = (events, Inl e) \<and>
           filter is_Run events = [] \<and> filter is_prediction events = []"
  using assms by (simp add: main_def)

theorem load_failure_aborts_witness:
  "(\<lambda>p. Inr Map.empty) ''configs/inference/sentence_bert_config.json'' = Inr Map.empty \<and>
   (\<lambda>c. Inl ModelLoadError) (Map.empty :: string \<rightharpoonup> json) = Inl ModelLoadError \<and>
   (\<exists>events.
      main (\<lambda>p. Inr Map.empty) (\<lambda>c. Inl ModelLoadError)
        ''configs/inference/sentence_bert_config.json''
        [\<lparr> route = Nli_model,
            args = [''text'' \<mapsto> ''The Eiffel Tower is in Paris'',
                    ''hypothesis'' \<mapsto> ''The Eiffel Tower is located in Paris, France''],
            start_time = 0, end_time = 7 \<rparr>] =
        (events, Inl ModelLoadError) \<and>
      filter is_Run events = [] \<and> filter is_prediction events = [])"
proof -
  let ?rc = "\<lambda>p::string. Inr Map.empty :: error + (string \<rightharpoonup> json)"
  let ?init = "\<lambda>c::string \<rightharpoonup> json. Inl ModelLoadError :: error + WikiFactChecker"
  let ?path = "''configs/inference/sentence_bert_config.json''"
  have h1: "?rc ?path = Inr Map.empty" by simp
  have h2: "?init Map.empty = Inl ModelLoadError" by simp
  from load_failure_aborts [of ?rc ?path Map.empty ?init ModelLoadError, OF h1 h2]
  show ?thesis by simp
qed

text \<open>
  A configuration file that names port 8080 and host 127.0.0.1: the server is started
  on port 80 and host 0.0.0.0 all the same, the literals of the call of \<open>app.run\<close>.
\<close>

theorem port_host_fixed_counterexample:
  "[''port'' \<mapsto> JInt 8080, ''host'' \<mapsto> JString ''127.0.0.1''] ''port'' = Some (JInt 8080) \<and>
   [''port'' \<mapsto> JInt 8080, ''host'' \<mapsto> JString ''127.0.0.1''] ''host'' = Some (JString ''127.0.0.1'') \<and>
   filter is_Run
     (fst (main (\<lambda>p. Inr [''port'' \<mapsto> JInt 8080, ''host'' \<mapsto> JString ''127.0.0.1''])
             (\<lambda>c. Inr \<lparr> model_level_two_predict = (\<lambda>t h. Inl InferenceError),
                          predict_all = (\<lambda>c. Inr []) \<rparr>)
             ''config.json'' [])) =
     [Run \<lparr> debug = False, port = 80, host = ''0.0.0.0'', threaded = True \<rparr>]"
  by (simp add: main_def app_run_args_def)

text \<open>
  Claim C8, as amended. Of the startup settings, the configuration file read at startup
  supplies the dict that the model is constructed from, the API version (\<open>api_version\<close>,
  or \<open>"0.0"\<close> when the key is missing) and the description of the \<open>nli_model\<close> namespace
  (\<open>model_name\<close>, or \<open>'Wikipedia NLI model'\<close> when missing). The API title, the port and the
  host are fixed in the code: \<open>'WikiCheck API'\<close>, 80 and \<open>0.0.0.0\<close>.
\<close>

theorem startup_configuration:
  assumes "read_config path = Inr cfg" and "WikiFactChecker_init cfg = Inr m"
  shows "\<exists>events g responses.
           main read_config WikiFactChecker_init path requests = (events, Inr (g, responses)) \<and>
           config g = cfg \<and> complex_model g = m \<and>
           version (api g) = (case cfg ''api_version'' of None \<Rightarrow> JString ''0.0'' | Some v \<Rightarrow> v) \<and>
           nli_model_description (api g) =
             (case cfg ''model_name'' of None \<Rightarrow> JString ''Wikipedia NLI model'' | Some v \<Rightarrow> v) \<and>
           title (api g) = ''WikiCheck API'' \<and>
           filter is_Run events =
             [Run \<lparr> debug = False, port = 80, host = ''0.0.0.0'', threaded = True \<rparr>]"
  using assms serve_events [of "\<lparr> config_path = path, config = cfg, complex_model = m, api = create_api cfg \<rparr>" requests]
  by (simp add: main_def serve_eq create_api_def dict_get_def app_run_args_def Let_def)

theorem startup_configuration_witness:
  "(\<lambda>p. Inr [''api_version'' \<mapsto> JString ''1.2'', ''port'' \<mapsto> JInt 8080])
     ''configs/inference/sentence_bert_config.json'' =
     Inr [''api_version'' \<mapsto> JString ''1.2'', ''port'' \<mapsto> JInt 8080] \<and>
   (\<lambda>c. Inr sample_model) [''api_version'' \<mapsto> JString ''1.2'', ''port'' \<mapsto> JInt 8080] =
     Inr sample_model \<and>
   (\<exists>events g responses.
      main (\<lambda>p. Inr [''api_version'' \<mapsto> JString ''1.2'', ''port'' \<mapsto> JInt 8080])
        (\<lambda>c. Inr sample_model) ''configs/inference/sentence_bert_config.json'' [] =
        (events, Inr (g, responses)) \<and>
      complex_model g = sample_model \<and>
      version (api g) = JString ''1.2'' \<and>
      nli_model_description (api g) = JString ''Wikipedia NLI model'' \<and>
      title (api g) = ''WikiCheck API'' \<and>
      filter is_Run events =
        [Run \<lparr> debug = False, port = 80, host = ''0.0.0.0'', threaded = True \<rparr>])"
proof -
  let ?cfg = "[''api_version'' \<mapsto> JString ''1.2'', ''port'' \<mapsto> JInt 8080]"
  let ?rc = "\<lambda>p::string. Inr ?cfg :: error + (string \<rightharpoonup> json)"
  let ?init = "\<lambda>c::string \<rightharpoonup> json. Inr sample_model :: error + WikiFactChecker"
  let ?path = "''configs/inference/sentence_bert_config.json''"
  have h1: "?rc ?path = Inr ?cfg" by simp
  have h2: "?init ?cfg = Inr sample_model" by simp
  from startup_configuration [of ?rc ?path ?cfg ?init sample_model "[]", OF h1 h2]
  obtain events g responses where
    "main ?rc ?init ?path [] = (events, Inr (g, responses))"
    "complex_model g = sample_model"
    "version (api g) = (case ?cfg ''api_version'' of None \<Rightarrow> JString ''0.0'' | Some v \<Rightarrow> v)"
    "nli_model_description (api g) =
       (case ?cfg ''model_name'' of None \<Rightarrow> JString ''Wikipedia NLI model'' | Some v \<Rightarrow> v)"
    "title (api g) = ''WikiCheck API''"
    "filter is_Run events = [Run \<lparr> debug = False, port = 80, host = ''0.0.0.0'', threaded = True \<rparr>]"
    by blast
  moreover have "(case ?cfg ''api_version'' of None \<Rightarrow> JString ''0.0'' | Some v \<Rightarrow> v) = JString ''1.2''"
    by simp
  moreover have "(case ?cfg ''model_name'' of None \<Rightarrow> JString ''Wikipedia NLI model'' | Some v \<Rightarrow> v) =
      JString ''Wikipedia NLI model''"
    by simp
  ultimately show ?thesis using h1 h2 by auto
qed

end
